theory Spec2Isabelle
  imports Main "HOL-Library.Sublist"
begin

section \<open>Values shared by the model\<close>

text \<open>
  Errors are values.  The source throws plain \<^verbatim>\<open>Error\<close> objects with a message
  (constructor, \<^verbatim>\<open>connection\<close>, \<^verbatim>\<open>url\<close>), rejects with whatever the MongoDB
  driver or a user hook rejected with, rejects with the validator's
  \<^verbatim>\<open>validation.error\<close>, and raises a \<^verbatim>\<open>TypeError\<close> when it calls a hook
  that is not a function.
\<close>

datatype error =
    Error string
  | TransportError string
  | HookError string
  | ValidationFailed string
  | TypeError string

text \<open>A promise that resolves with \<^verbatim>\<open>this\<close> resolves with \<open>Self\<close>.\<close>

datatype self = Self

text \<open>
  Decimal rendering of a port inside a template literal.  Ports are modelled as
  natural numbers (JavaScript prints an integer below \<open>10^21\<close> as its decimal
  digits).
\<close>

fun show_nat :: "nat \<Rightarrow> string" where
  "show_nat n =
     (if n < 10 then [''0123456789'' ! n]
      else show_nat (n div 10) @ [''0123456789'' ! (n mod 10)])"

declare show_nat.simps [simp del]

text \<open>\<^verbatim>\<open>Array.prototype.join\<close> with a separator.\<close>

fun join :: "string \<Rightarrow> string list \<Rightarrow> string" where
  "join sep [] = []"
| "join sep [x] = x"
| "join sep (x # y # ys) = x @ sep @ join sep (y # ys)"

text \<open>
  lodash's \<^verbatim>\<open>_.uniq\<close>: walk the array from the left and push every element that
  is not yet in the result.  (HOL's \<open>remdups\<close> keeps the last occurrence, so it is
  not the same function.)
\<close>

fun uniq_into :: "'a list \<Rightarrow> 'a list \<Rightarrow> 'a list" where
  "uniq_into result [] = result"
| "uniq_into result (x # xs) =
     (if x \<in> set result then uniq_into result xs else uniq_into (result @ [x]) xs)"

definition uniq :: "'a list \<Rightarrow> 'a list" where
  "uniq xs = uniq_into [] xs"

text \<open>
  JavaScript truthiness of an optional string and of an optional number: the
  value when \<^verbatim>\<open>if (x)\<close> takes the branch, \<open>None\<close> when it does not (the
  property is missing, the string is empty, the number is zero).
\<close>

fun truthy_string :: "string option \<Rightarrow> string option" where
  "truthy_string None = None"
| "truthy_string (Some s) = (if s = [] then None else Some s)"

fun truthy_number :: "nat option \<Rightarrow> nat option" where
  "truthy_number None = None"
| "truthy_number (Some n) = (if n = 0 then None else Some n)"

section \<open>The connection lifecycle manager (\<^verbatim>\<open>Core\<close>)\<close>

subsection \<open>Configuration and manager state\<close>

text \<open>
  The configuration shape the \<^verbatim>\<open>url\<close> getter and \<^verbatim>\<open>connect\<close> read:
  \<^verbatim>\<open>{ username?, password?, host?, port?, hosts?: [{address, port?}], database?, options? }\<close>.
  The driver options are opaque to the manager.
\<close>

record host_entry =
  address :: string
  host_port :: "nat option"

type_synonym driver_options = "(string \<times> string) list"

record configuration =
  username :: "string option"
  password :: "string option"
  host :: "string option"
  port :: "nat option"
  hosts :: "host_entry list option"
  database :: "string option"
  driver_options :: "driver_options option"

text \<open>An established MongoDB session is an opaque handle.\<close>

datatype db = Db nat

type_synonym plugin = string

text \<open>A document lives in the store of objects at an address (see the pipeline below).\<close>

type_synonym addr = nat

text \<open>
  Modelled from the spec: the two reference cache backends, \<^verbatim>\<open>caches/NoOpCache\<close>
  and \<^verbatim>\<open>caches/MemoryCache\<close>, are imported by the sources but are not among them.
  The spec gives the interface \<^verbatim>\<open>get(key) -> value|absent\<close>,
  \<^verbatim>\<open>set(key, value) -> value\<close>, \<^verbatim>\<open>clear(key) -> bool\<close>, the no-op backend
  (every call is a no-op success, it never stores) and the in-process map (exact
  in-memory echo, no expiry, no size bound).  A cached value is a reference to a
  document object.
\<close>

datatype cache = NoOpCache | MemoryCache "string \<rightharpoonup> addr"

fun cache_set :: "cache \<Rightarrow> string \<Rightarrow> addr \<Rightarrow> cache \<times> addr" where
  "cache_set NoOpCache k v = (NoOpCache, v)"
| "cache_set (MemoryCache m) k v = (MemoryCache (m(k \<mapsto> v)), v)"

fun cache_get :: "cache \<Rightarrow> string \<Rightarrow> addr option" where
  "cache_get NoOpCache k = None"
| "cache_get (MemoryCache m) k = m k"

fun cache_clear :: "cache \<Rightarrow> string \<Rightarrow> cache \<times> bool" where
  "cache_clear NoOpCache k = (NoOpCache, False)"
| "cache_clear (MemoryCache m) k = (MemoryCache (m(k := None)), m k \<noteq> None)"

text \<open>
  What the manager does to the outside world, in the order it does it: the
  underlying connect operations it issues, the overridable hooks it invokes, and
  the handles it releases.  \<open>DbClose c x\<close> records that \<^verbatim>\<open>c.close()\<close> was called
  while the \<^verbatim>\<open>_connection\<close> field held \<open>x\<close>.
\<close>

datatype event =
    IssueConnect string driver_options
  | OnConnecting db
  | OnConnected
  | DbClose db "db option"

text \<open>
  The private fields of \<^verbatim>\<open>Core\<close>.  \<^verbatim>\<open>_connectPromise\<close> holds the promise that
  \<^verbatim>\<open>mongoConnectAsyc\<close> returned; a promise is represented by what it settles
  with.  \<open>trace\<close> is the history of events.
\<close>

record core =
  c_plugins :: "plugin list"
  c_url :: "string option"
  c_config :: "configuration option"
  c_connection :: "db option"
  c_cache :: "cache option"
  c_connectPromise :: "(error + db) option"
  trace :: "event list"

text \<open>The constructor: a string first argument, else a configuration object, else a throw.\<close>

datatype ctor_arg = Uri string | Config configuration | Missing

fun new_Core :: "ctor_arg \<Rightarrow> configuration option \<Rightarrow> error + core" where
  "new_Core (Uri uri) config =
     Inr \<lparr>c_plugins = [], c_url = Some uri, c_config = config, c_connection = None,
          c_cache = Some NoOpCache, c_connectPromise = None, trace = []\<rparr>"
| "new_Core (Config uri) config =
     Inr \<lparr>c_plugins = [], c_url = None, c_config = Some uri, c_connection = None,
          c_cache = Some NoOpCache, c_connectPromise = None, trace = []\<rparr>"
| "new_Core Missing config =
     Inl (Error ''Expected either a URI or config object to be supplied when initializing Iridium'')"

subsection \<open>\<^verbatim>\<open>get url\<close>: resolving the connection target\<close>

text \<open>The body of the \<^verbatim>\<open>_.each\<close> callback: one \<^verbatim>\<open>hosts.push\<close> per additional host.\<close>

definition push_host :: "configuration \<Rightarrow> string list \<Rightarrow> host_entry \<Rightarrow> string list" where
  "push_host cfg hs h =
     (case truthy_number (host_port h) of
        Some p \<Rightarrow> hs @ [address h @ '':'' @ show_nat p]
      | None \<Rightarrow>
         (case truthy_number (port cfg) of
            Some p \<Rightarrow> hs @ [address h @ '':'' @ show_nat p]
          | None \<Rightarrow> hs @ [address h]))"

definition url :: "core \<Rightarrow> error + string" where
  "url c =
     (case truthy_string (c_url c) of
        Some u \<Rightarrow> Inr u
      | None \<Rightarrow>
         (case c_config c of
            None \<Rightarrow> Inl (Error ''No URL or configuration provided'')
          | Some cfg \<Rightarrow>
             let url0 = ''mongodb://'';
                 url1 =
                   (case truthy_string (username cfg) of
                      Some u \<Rightarrow>
                        (case truthy_string (password cfg) of
                           Some p \<Rightarrow> url0 @ u @ '':'' @ p @ ''@''
                         | None \<Rightarrow> url0 @ u @ ''@'')
                    | None \<Rightarrow> url0);
                 hosts0 =
                   (case truthy_string (host cfg) of
                      Some h \<Rightarrow>
                        (case truthy_number (port cfg) of
                           Some p \<Rightarrow> [h @ '':'' @ show_nat p]
                         | None \<Rightarrow> [h])
                    | None \<Rightarrow> []);
                 hosts1 =
                   (case hosts cfg of
                      Some hs \<Rightarrow> foldl (push_host cfg) hosts0 hs
                    | None \<Rightarrow> hosts0);
                 url2 =
                   (if hosts1 \<noteq> [] then url1 @ join '','' (uniq hosts1)
                    else url1 @ ''localhost'');
                 url3 =
                   (case truthy_string (database cfg) of
                      Some d \<Rightarrow> url2 @ ''/'' @ d
                    | None \<Rightarrow> url2)
             in Inr url3))"

text \<open>\<^verbatim>\<open>new Core(uri, config).url\<close>, for a manager as the constructor leaves it.\<close>

definition resolveTarget :: "ctor_arg \<Rightarrow> configuration option \<Rightarrow> error + string" where
  "resolveTarget uri config =
     (case new_Core uri config of Inl e \<Rightarrow> Inl e | Inr c \<Rightarrow> url c)"

text \<open>
  The target as the specification words it, piece by piece:
  \<^verbatim>\<open>scheme://[user[:password]@]hosts[/database]\<close>.  A field is present when
  JavaScript takes it for true.
\<close>

definition spec_credentials :: "configuration \<Rightarrow> string" where
  "spec_credentials cfg =
     (case truthy_string (username cfg) of
        None \<Rightarrow> []
      | Some u \<Rightarrow>
          u @ (case truthy_string (password cfg) of None \<Rightarrow> [] | Some p \<Rightarrow> '':'' @ p) @ ''@'')"

definition spec_port_segment :: "nat option \<Rightarrow> nat option \<Rightarrow> string" where
  "spec_port_segment own shared =
     (case truthy_number own of
        Some p \<Rightarrow> '':'' @ show_nat p
      | None \<Rightarrow> (case truthy_number shared of Some p \<Rightarrow> '':'' @ show_nat p | None \<Rightarrow> []))"

definition spec_host_entries :: "configuration \<Rightarrow> string list" where
  "spec_host_entries cfg =
     (case truthy_string (host cfg) of
        Some h \<Rightarrow> [h @ spec_port_segment None (port cfg)]
      | None \<Rightarrow> [])
     @ map (\<lambda>h. address h @ spec_port_segment (host_port h) (port cfg))
         (case hosts cfg of Some hs \<Rightarrow> hs | None \<Rightarrow> [])"

definition spec_hosts :: "configuration \<Rightarrow> string" where
  "spec_hosts cfg =
     (if spec_host_entries cfg = [] then ''localhost''
      else join '','' (uniq (spec_host_entries cfg)))"

definition spec_database :: "configuration \<Rightarrow> string" where
  "spec_database cfg =
     (case truthy_string (database cfg) of Some d \<Rightarrow> ''/'' @ d | None \<Rightarrow> [])"

definition spec_target :: "configuration \<Rightarrow> string" where
  "spec_target cfg = ''mongodb://'' @ spec_credentials cfg @ spec_hosts cfg @ spec_database cfg"

subsection \<open>\<^verbatim>\<open>get connection\<close>\<close>

definition connection :: "core \<Rightarrow> error + db" where
  "connection c =
     (case c_connection c of
        None \<Rightarrow> Inl (Error ''Iridium Core not connected to a database.'')
      | Some conn \<Rightarrow> Inr conn)"

subsection \<open>\<^verbatim>\<open>connect\<close> and \<^verbatim>\<open>close\<close>\<close>

text \<open>
  What the manager cannot decide itself is a parameter: what the \<open>k\<close>-th call of the
  driver's connect settles with, what the \<open>k\<close>-th invocation of each overridable
  hook settles with (a user's override may resolve or reject, and differently on
  each invocation), and what releasing a handle does.  The default hooks of the
  source resolve: \<^verbatim>\<open>onConnecting\<close> with the connection it was given,
  \<^verbatim>\<open>onConnected\<close> with nothing.  The hooks are taken not to write the manager's
  private fields.

  A call of \<^verbatim>\<open>conn.close()\<close> throws before it returns, or it returns a promise
  that settles later with success or with a failure.  The source calls it without
  a \<^verbatim>\<open>try\<close> and never looks at what it returns.
\<close>

datatype release = Throws error | Returned "error + unit"

record env =
  mongoConnect :: "nat \<Rightarrow> string \<Rightarrow> driver_options \<Rightarrow> error + db"
  onConnecting :: "nat \<Rightarrow> db \<Rightarrow> error + db"
  onConnected :: "nat \<Rightarrow> error + unit"
  dbClose :: "db \<Rightarrow> release"

fun is_IssueConnect :: "event \<Rightarrow> bool" where
  "is_IssueConnect (IssueConnect u opts) = True"
| "is_IssueConnect ev = False"

fun is_OnConnecting :: "event \<Rightarrow> bool" where
  "is_OnConnecting (OnConnecting d) = True"
| "is_OnConnecting ev = False"

fun is_OnConnected :: "event \<Rightarrow> bool" where
  "is_OnConnected OnConnected = True"
| "is_OnConnected ev = False"

text \<open>How many underlying connect operations the manager has issued so far.\<close>

definition issued :: "core \<Rightarrow> nat" where
  "issued c = length (filter is_IssueConnect (trace c))"

text \<open>
  The four callbacks of the promise chain in \<^verbatim>\<open>connect\<close>.  A promise is
  represented by what it settles with.

  First callback: return the established connection, else the promise of the
  attempt in flight, else read \<^verbatim>\<open>this.url\<close> (which may throw), call the driver
  with \<^verbatim>\<open>this._config && this._config.options || {}\<close> and keep its promise in
  \<^verbatim>\<open>_connectPromise\<close>.
\<close>

definition connect_options :: "core \<Rightarrow> driver_options" where
  "connect_options c =
     (case c_config c of
        None \<Rightarrow> []
      | Some cfg \<Rightarrow> (case driver_options cfg of None \<Rightarrow> [] | Some os \<Rightarrow> os))"

definition connect_first :: "env \<Rightarrow> core \<Rightarrow> core \<times> (error + db)" where
  "connect_first env c =
     (case c_connection c of
        Some conn \<Rightarrow> (c, Inr conn)
      | None \<Rightarrow>
         (case c_connectPromise c of
            Some p \<Rightarrow> (c, p)
          | None \<Rightarrow>
             (case url c of
                Inl e \<Rightarrow> (c, Inl e)
              | Inr u \<Rightarrow>
                 let opts = connect_options c;
                     p = mongoConnect env (issued c) u opts
                 in (c\<lparr>c_connectPromise := Some p,
                        trace := trace c @ [IssueConnect u opts]\<rparr>, p))))"

text \<open>Second callback: \<^verbatim>\<open>return this.onConnecting(db)\<close>.\<close>

definition connect_onConnecting :: "env \<Rightarrow> core \<Rightarrow> db \<Rightarrow> core \<times> (error + db)" where
  "connect_onConnecting env c d =
     (c\<lparr>trace := trace c @ [OnConnecting d]\<rparr>,
      onConnecting env (length (filter is_OnConnecting (trace c))) d)"

text \<open>Third callback: store the connection, drop the promise, \<^verbatim>\<open>return this.onConnected()\<close>.\<close>

definition connect_store :: "env \<Rightarrow> core \<Rightarrow> db \<Rightarrow> core \<times> (error + unit)" where
  "connect_store env c d =
     (c\<lparr>c_connection := Some d, c_connectPromise := None, trace := trace c @ [OnConnected]\<rparr>,
      onConnected env (length (filter is_OnConnected (trace c))))"

text \<open>
  The rejection handler: close \<^verbatim>\<open>this._connection\<close> if it is set, clear both
  fields, reject with the same error.  The promise the release returns is dropped.
  A release that throws ends the handler there: the fields stay as they are and
  the call rejects with what was thrown.
\<close>

definition connect_failed :: "env \<Rightarrow> core \<Rightarrow> error \<Rightarrow> core \<times> (error + self)" where
  "connect_failed env c err =
     (case c_connection c of
        Some conn \<Rightarrow>
          let c1 = c\<lparr>trace := trace c @ [DbClose conn (c_connection c)]\<rparr>
          in (case dbClose env conn of
                Throws thrown \<Rightarrow> (c1, Inl thrown)
              | Returned p \<Rightarrow> (c1\<lparr>c_connection := None, c_connectPromise := None\<rparr>, Inl err))
      | None \<Rightarrow> (c\<lparr>c_connection := None, c_connectPromise := None\<rparr>, Inl err))"

text \<open>
  One call of \<^verbatim>\<open>connect\<close> running alone from start to end: the chain
  \<^verbatim>\<open>resolve().then(first).then(onConnecting).then(store).then(() => this, failed)\<close>.
  A rejection skips the callbacks up to the handler.  (\<^verbatim>\<open>nodeify\<close> only hands the
  outcome to the optional callback as well.)
\<close>

definition connect :: "env \<Rightarrow> core \<Rightarrow> core \<times> (error + self)" where
  "connect env c =
     (case connect_first env c of
        (c1, Inl e) \<Rightarrow> connect_failed env c1 e
      | (c1, Inr d) \<Rightarrow>
         (case connect_onConnecting env c1 d of
            (c2, Inl e) \<Rightarrow> connect_failed env c2 e
          | (c2, Inr d') \<Rightarrow>
             (case connect_store env c2 d' of
                (c3, Inl e) \<Rightarrow> connect_failed env c3 e
              | (c3, Inr u) \<Rightarrow> (c3, Inr Self))))"

text \<open>
  \<^verbatim>\<open>close\<close>: nothing to do without a connection; else clear the field, then call
  \<^verbatim>\<open>conn.close()\<close>.  If the call returns, its promise is dropped and \<^verbatim>\<open>close\<close>
  resolves with \<^verbatim>\<open>this\<close>; if it throws, the callback ends there and \<^verbatim>\<open>close\<close>
  rejects with what was thrown.
\<close>

definition close :: "env \<Rightarrow> core \<Rightarrow> core \<times> (error + self)" where
  "close env c =
     (case c_connection c of
        None \<Rightarrow> (c, Inr Self)
      | Some conn \<Rightarrow>
         let c1 = c\<lparr>c_connection := None\<rparr>;
             c2 = c1\<lparr>trace := trace c1 @ [DbClose conn (c_connection c1)]\<rparr>
         in (case dbClose env conn of
               Throws thrown \<Rightarrow> (c2, Inl thrown)
             | Returned p \<Rightarrow> (c2, Inr Self)))"

subsection \<open>Concurrent calls of \<^verbatim>\<open>connect\<close>\<close>

text \<open>
  JavaScript runs one callback at a time, to its end; between two callbacks of one
  call, callbacks of other calls may run.  A call of \<^verbatim>\<open>connect\<close> is therefore a
  task that is at one of these stages: its first callback is queued (\<open>Start\<close>; the
  call itself does nothing else), it waits for the promise its first, second or
  third callback returned, a rejection is on its way to the handler, or the
  promise the call returned is settled.
\<close>

datatype stage =
    Start
  | AwaitDb "error + db"
  | AwaitConnecting "error + db"
  | AwaitConnected "error + unit"
  | Rejected error
  | Settled "error + self"

text \<open>The next callback of one task.\<close>

fun step :: "env \<Rightarrow> core \<Rightarrow> stage \<Rightarrow> core \<times> stage" where
  "step env c Start = (case connect_first env c of (c', p) \<Rightarrow> (c', AwaitDb p))"
| "step env c (AwaitDb (Inl e)) = (c, Rejected e)"
| "step env c (AwaitDb (Inr d)) =
     (case connect_onConnecting env c d of (c', p) \<Rightarrow> (c', AwaitConnecting p))"
| "step env c (AwaitConnecting (Inl e)) = (c, Rejected e)"
| "step env c (AwaitConnecting (Inr d)) =
     (case connect_store env c d of (c', p) \<Rightarrow> (c', AwaitConnected p))"
| "step env c (AwaitConnected (Inl e)) = (c, Rejected e)"
| "step env c (AwaitConnected (Inr u)) = (c, Settled (Inr Self))"
| "step env c (Rejected e) = (case connect_failed env c e of (c', r) \<Rightarrow> (c', Settled r))"
| "step env c (Settled r) = (c, Settled r)"

text \<open>
  A schedule names, callback by callback, the task that runs next; every
  interleaving of the calls is a schedule.  A name that is no task does nothing.
\<close>

fun run :: "env \<Rightarrow> nat list \<Rightarrow> core \<times> stage list \<Rightarrow> core \<times> stage list" where
  "run env [] s = s"
| "run env (i # sch) (c, ts) =
     (if i < length ts
      then (case step env c (ts ! i) of (c', t') \<Rightarrow> run env sch (c', ts[i := t']))
      else run env sch (c, ts))"

text \<open>\<open>n\<close> calls of \<^verbatim>\<open>connect\<close> have been made on the manager and none has run yet.\<close>

definition calls :: "nat \<Rightarrow> core \<Rightarrow> core \<times> stage list" where
  "calls n c = (c, replicate n Start)"


section \<open>Documents, the model cache and the lifecycle pipeline\<close>

subsection \<open>Documents and the store of objects\<close>

text \<open>
  A document is plain structured data.  Document objects live in a store and are
  passed around by reference (an address); a nested value is part of its
  document.  Reading an address the store does not hold (which JavaScript cannot
  do) gives \<open>JNull\<close>.
\<close>

datatype jvalue =
    JNull
  | JBool bool
  | JNum int
  | JStr string
  | JArr "jvalue list"
  | JObj "(string \<times> jvalue) list"

type_synonym heap = "jvalue list"

definition deref :: "heap \<Rightarrow> addr \<Rightarrow> jvalue" where
  "deref h a = (if a < length h then h ! a else JNull)"

definition alloc :: "heap \<Rightarrow> jvalue \<Rightarrow> heap \<times> addr" where
  "alloc h v = (h @ [v], length h)"

text \<open>lodash's \<^verbatim>\<open>_.cloneDeep\<close> on plain data: rebuild the value, level by level.\<close>

fun cloneDeep :: "jvalue \<Rightarrow> jvalue" where
  "cloneDeep (JArr xs) = JArr (map cloneDeep xs)"
| "cloneDeep (JObj kvs) = JObj (map (\<lambda>kv. (fst kv, cloneDeep (snd kv))) kvs)"
| "cloneDeep v = v"

subsection \<open>The model\<close>

text \<open>
  A cache director is four pure functions of a document or of query conditions
  (\<^verbatim>\<open>valid\<close>, \<^verbatim>\<open>buildKey\<close>, \<^verbatim>\<open>validQuery\<close>, \<^verbatim>\<open>buildQueryKey\<close>).
\<close>

record director =
  valid :: "jvalue \<Rightarrow> bool"
  buildKey :: "jvalue \<Rightarrow> string"
  validQuery :: "jvalue \<Rightarrow> bool"
  buildQueryKey :: "jvalue \<Rightarrow> string"

text \<open>What \<^verbatim>\<open>this.model.helpers.validate(document)\<close> returns.\<close>

record validation =
  failed :: bool
  detail :: string

text \<open>
  What the pipeline reads of its model: the optional hooks
  (\<^verbatim>\<open>model.options.hooks\<close>), the validator, the optional cache director and the
  test \<^verbatim>\<open>wrapped instanceof this.model.Instance\<close>.  A hook is user code that gets a
  document object: it throws or rejects (\<open>Inl\<close>), or it completes and has left the
  document as the value it returns here (\<open>Inr\<close>); what the JavaScript hook returns
  is only awaited.  \<open>'r\<close> is what the wrapping function produces.
\<close>

record 'r model =
  creating :: "(jvalue \<Rightarrow> error + jvalue) option"
  retrieved :: "(jvalue \<Rightarrow> error + jvalue) option"
  ready :: "('r \<Rightarrow> jvalue \<Rightarrow> error + jvalue) option"
  validate :: "jvalue \<Rightarrow> validation"
  cacheDirector :: "director option"
  isInstance :: "'r \<Rightarrow> bool"

text \<open>
  What the pipeline does, in order: hook invocations, validations, the calls of
  \<^verbatim>\<open>model.cache.set\<close>, the writes that reach the cache backend, and wrappings
  (with the \<^verbatim>\<open>isNew\<close> and \<^verbatim>\<open>isPartial\<close> flags).
\<close>

datatype pevent =
    HookRetrieved addr
  | HookCreating addr
  | HookReady addr
  | Validated addr
  | ModelCacheSet addr
  | CacheSet string addr
  | Wrapped addr bool bool

text \<open>The state the pipeline works on: the objects, the owning manager, the history.\<close>

record world =
  heap :: heap
  core :: core
  plog :: "pevent list"

subsection \<open>\<^verbatim>\<open>ModelCache\<close>\<close>

text \<open>
  \<^verbatim>\<open>set\<close> and \<^verbatim>\<open>get\<close> go to \<^verbatim>\<open>this.model.core.cache\<close> as it is when they are
  called.  Calling a method of a cache that is not there is a \<^verbatim>\<open>TypeError\<close>.
\<close>

definition modelCache_set :: "'r model \<Rightarrow> addr \<Rightarrow> world \<Rightarrow> world \<times> (error + addr)" where
  "modelCache_set m v w =
     (case cacheDirector m of
        None \<Rightarrow> (w, Inr v)
      | Some dir \<Rightarrow>
         if \<not> valid dir (deref (heap w) v) then (w, Inr v)
         else
           (case c_cache (core w) of
              None \<Rightarrow> (w, Inl (TypeError ''Cannot read property set of undefined''))
            | Some ch \<Rightarrow>
               let k = buildKey dir (deref (heap w) v);
                   (ch', r) = cache_set ch k v
               in (w\<lparr>core := (core w)\<lparr>c_cache := Some ch'\<rparr>,
                      plog := plog w @ [CacheSet k v]\<rparr>, Inr r)))"

definition modelCache_get :: "'r model \<Rightarrow> jvalue \<Rightarrow> world \<Rightarrow> error + addr option" where
  "modelCache_get m conditions w =
     (case cacheDirector m of
        None \<Rightarrow> Inr None
      | Some dir \<Rightarrow>
         if \<not> validQuery dir conditions then Inr None
         else
           (case c_cache (core w) of
              None \<Rightarrow> Inl (TypeError ''Cannot read property get of undefined'')
            | Some ch \<Rightarrow> Inr (cache_get ch (buildQueryKey dir conditions))))"

definition modelCache_clear :: "'r model \<Rightarrow> jvalue \<Rightarrow> world \<Rightarrow> world \<times> (error + bool)" where
  "modelCache_clear m conditions w =
     (case cacheDirector m of
        None \<Rightarrow> (w, Inr False)
      | Some dir \<Rightarrow>
         if \<not> validQuery dir conditions then (w, Inr False)
         else
           (case c_cache (core w) of
              None \<Rightarrow> (w, Inl (TypeError ''Cannot read property clear of undefined''))
            | Some ch \<Rightarrow>
               let (ch', r) = cache_clear ch (buildQueryKey dir conditions)
               in (w\<lparr>core := (core w)\<lparr>c_cache := Some ch'\<rparr>\<rparr>, Inr r)))"

subsection \<open>\<^verbatim>\<open>ModelHandlers.documentReceived\<close>\<close>

text \<open>
  The query options the pipeline reads, each optional, and \<^verbatim>\<open>_.defaults\<close>, which
  fills in \<^verbatim>\<open>cache: true\<close> and \<^verbatim>\<open>partial: false\<close> where the caller gave nothing.
  A \<^verbatim>\<open>fields\<close> projection is an object, so it is true whenever it is there.
\<close>

record query_options =
  opt_cache :: "bool option"
  opt_fields :: "(string \<times> int) list option"
  opt_partial :: "bool option"

definition defaults :: "query_options \<Rightarrow> query_options" where
  "defaults os =
     os\<lparr>opt_cache := Some (case opt_cache os of None \<Rightarrow> True | Some b \<Rightarrow> b),
        opt_partial := Some (case opt_partial os of None \<Rightarrow> False | Some b \<Rightarrow> b)\<rparr>"

text \<open>Running a hook on a document object: the invocation, then its effect on the object.\<close>

definition run_hook ::
  "(jvalue \<Rightarrow> error + jvalue) \<Rightarrow> pevent \<Rightarrow> addr \<Rightarrow> world \<Rightarrow> world \<times> (error + unit)" where
  "run_hook h ev a w =
     (let w1 = w\<lparr>plog := plog w @ [ev]\<rparr>
      in case h (deref (heap w1) a) of
           Inl e \<Rightarrow> (w1, Inl e)
         | Inr v \<Rightarrow> (w1\<lparr>heap := (heap w1)[a := v]\<rparr>, Inr ()))"

text \<open>First callback: trigger the \<^verbatim>\<open>retrieved\<close> hook if there is one.\<close>

definition received_hook :: "'r model \<Rightarrow> addr \<Rightarrow> world \<Rightarrow> world \<times> (error + unit)" where
  "received_hook m target w =
     (case retrieved m of
        Some h \<Rightarrow> run_hook h (HookRetrieved target) target w
      | None \<Rightarrow> (w, Inr ()))"

text \<open>
  Second callback: \<^verbatim>\<open>if (this.model.core.cache && options.cache && !options.fields)\<close>,
  clone the document and hand the clone to \<^verbatim>\<open>this.model.cache.set\<close>.
\<close>

definition received_cache ::
  "'r model \<Rightarrow> query_options \<Rightarrow> addr \<Rightarrow> world \<Rightarrow> world \<times> (error + unit)" where
  "received_cache m os target w =
     (if c_cache (core w) \<noteq> None \<and> opt_cache os = Some True \<and> opt_fields os = None
      then
        let (h', cacheDoc) = alloc (heap w) (cloneDeep (deref (heap w) target));
            w1 = w\<lparr>heap := h', plog := plog w @ [ModelCacheSet cacheDoc]\<rparr>
        in (case modelCache_set m cacheDoc w1 of
              (w2, Inl e) \<Rightarrow> (w2, Inl e)
            | (w2, Inr r) \<Rightarrow> (w2, Inr ()))
      else (w, Inr ()))"

text \<open>
  Third callback: wrap the document (\<^verbatim>\<open>isNew\<close> false, \<^verbatim>\<open>isPartial\<close> being
  \<^verbatim>\<open>!!options.fields\<close>) and trigger the \<^verbatim>\<open>ready\<close> hook on an instance.
\<close>

definition received_wrap ::
  "'r model \<Rightarrow> query_options \<Rightarrow> addr \<Rightarrow> (addr \<Rightarrow> bool \<Rightarrow> bool \<Rightarrow> 'r) \<Rightarrow> world
     \<Rightarrow> world \<times> (error + 'r)" where
  "received_wrap m os target wrapper w =
     (let isPartial = (opt_fields os \<noteq> None);
          wrapped = wrapper target False isPartial;
          w1 = w\<lparr>plog := plog w @ [Wrapped target False isPartial]\<rparr>
      in case ready m of
           Some h \<Rightarrow>
             if isInstance m wrapped
             then (case run_hook (h wrapped) (HookReady target) target w1 of
                     (w2, Inl e) \<Rightarrow> (w2, Inl e)
                   | (w2, Inr u) \<Rightarrow> (w2, Inr wrapped))
             else (w1, Inr wrapped)
         | None \<Rightarrow> (w1, Inr wrapped))"

definition documentReceived ::
  "'r model \<Rightarrow> jvalue \<Rightarrow> addr \<Rightarrow> (addr \<Rightarrow> bool \<Rightarrow> bool \<Rightarrow> 'r) \<Rightarrow> query_options \<Rightarrow> world
     \<Rightarrow> world \<times> (error + 'r)" where
  "documentReceived m conditions result wrapper options0 w =
     (let os = defaults options0; target = result
      in case received_hook m target w of
           (w1, Inl e) \<Rightarrow> (w1, Inl e)
         | (w1, Inr u) \<Rightarrow>
            (case received_cache m os target w1 of
               (w2, Inl e) \<Rightarrow> (w2, Inl e)
             | (w2, Inr u') \<Rightarrow> received_wrap m os target wrapper w2))"

text \<open>The calls of \<^verbatim>\<open>model.cache.set\<close> and the writes that reach the backend, in a history.\<close>

fun is_ModelCacheSet :: "pevent \<Rightarrow> bool" where
  "is_ModelCacheSet (ModelCacheSet a) = True"
| "is_ModelCacheSet ev = False"

fun is_CacheSet :: "pevent \<Rightarrow> bool" where
  "is_CacheSet (CacheSet k a) = True"
| "is_CacheSet ev = False"

subsection \<open>\<^verbatim>\<open>ModelHandlers.creatingDocuments\<close>\<close>

text \<open>
  Each document gets a branch \<^verbatim>\<open>resolve().then(hook).then(validate)\<close>; the branches
  of a batch are in flight together and \<^verbatim>\<open>Bluebird.all\<close> waits for them.

  First callback of a branch, as the source has it: the test reads
  \<^verbatim>\<open>hooks.retrieved\<close>, the call goes to \<^verbatim>\<open>hooks.creating\<close>.  Calling a hook that
  is not there is a \<^verbatim>\<open>TypeError\<close>.
\<close>

definition creating_hook :: "'r model \<Rightarrow> addr \<Rightarrow> world \<Rightarrow> world \<times> (error + unit)" where
  "creating_hook m document w =
     (case retrieved m of
        Some r \<Rightarrow>
          (case creating m of
             Some h \<Rightarrow> run_hook h (HookCreating document) document w
           | None \<Rightarrow>
               (w, Inl (TypeError ''this.model.options.hooks.creating is not a function'')))
      | None \<Rightarrow> (w, Inr ()))"

text \<open>
  Second callback of a branch: validate; reject with \<^verbatim>\<open>validation.error\<close> (the
  validator's failure, carrying its detail) or resolve with the document.
\<close>

definition creating_validate :: "'r model \<Rightarrow> addr \<Rightarrow> world \<Rightarrow> world \<times> (error + addr)" where
  "creating_validate m document w =
     (let validation = validate m (deref (heap w) document);
          w1 = w\<lparr>plog := plog w @ [Validated document]\<rparr>
      in if failed validation then (w1, Inl (ValidationFailed (detail validation)))
         else (w1, Inr document))"

text \<open>
  A branch has its first callback queued, or waits for what the first callback
  returned, or is settled.
\<close>

datatype bstage =
    BStart
  | BHooked "error + unit"
  | BSettled "error + addr"

fun bstep :: "'r model \<Rightarrow> addr \<Rightarrow> world \<Rightarrow> bstage \<Rightarrow> world \<times> bstage" where
  "bstep m document w BStart =
     (case creating_hook m document w of (w', r) \<Rightarrow> (w', BHooked r))"
| "bstep m document w (BHooked (Inl e)) = (w, BSettled (Inl e))"
| "bstep m document w (BHooked (Inr u)) =
     (case creating_validate m document w of (w', r) \<Rightarrow> (w', BSettled r))"
| "bstep m document w (BSettled r) = (w, BSettled r)"

text \<open>A schedule names, callback by callback, the branch that runs next.\<close>

fun brun ::
  "'r model \<Rightarrow> nat list \<Rightarrow> world \<times> (addr \<times> bstage) list \<Rightarrow> world \<times> (addr \<times> bstage) list" where
  "brun m [] s = s"
| "brun m (i # sch) (w, bs) =
     (if i < length bs
      then (case bstep m (fst (bs ! i)) w (snd (bs ! i)) of
              (w', b') \<Rightarrow> brun m sch (w', bs[i := (fst (bs ! i), b')]))
      else brun m sch (w, bs))"

text \<open>\<^verbatim>\<open>documents.map(...)\<close>: one branch per document, none has run yet.\<close>

definition branches :: "addr list \<Rightarrow> (addr \<times> bstage) list" where
  "branches documents = map (\<lambda>d. (d, BStart)) documents"

text \<open>What a branch settled with (a branch still in flight has no outcome).\<close>

fun outcome :: "addr \<times> bstage \<Rightarrow> (error + addr) option" where
  "outcome (d, BSettled r) = Some r"
| "outcome (d, b) = None"

text \<open>
  \<^verbatim>\<open>Bluebird.all\<close> over the branches: rejected once a branch is rejected (with
  the rejection of the first such branch, which in document order is the first
  to settle when the branches run round by round), resolved with every value once
  all are resolved, pending (\<open>None\<close>) otherwise.
\<close>

fun bluebird_all :: "(error + 'a) option list \<Rightarrow> (error + 'a list) option" where
  "bluebird_all [] = Some (Inr [])"
| "bluebird_all (Some (Inl e) # rs) = Some (Inl e)"
| "bluebird_all (Some (Inr v) # rs) =
     (case bluebird_all rs of
        None \<Rightarrow> None
      | Some (Inl e) \<Rightarrow> Some (Inl e)
      | Some (Inr vs) \<Rightarrow> Some (Inr (v # vs)))"
| "bluebird_all (None # rs) =
     (case bluebird_all rs of
        Some (Inl e) \<Rightarrow> Some (Inl e)
      | other \<Rightarrow> None)"

text \<open>
  The batch when no hook defers its work: the queue runs the first callback of
  every branch, then the second of every branch, each round in document order.
  The result is the state, what each branch settled with, and what the promise
  \<^verbatim>\<open>creatingDocuments\<close> returns settles with.
\<close>

definition creatingDocuments ::
  "'r model \<Rightarrow> addr list \<Rightarrow> world
     \<Rightarrow> world \<times> (error + addr) option list \<times> (error + addr list) option" where
  "creatingDocuments m documents w =
     (let n = length documents;
          (w', bs) = brun m ([0..<n] @ [0..<n]) (w, branches documents);
          rs = map outcome bs
      in (w', rs, bluebird_all rs))"

text \<open>One document on its own.\<close>

definition creating_alone :: "'r model \<Rightarrow> addr \<Rightarrow> world \<Rightarrow> error + addr" where
  "creating_alone m document w =
     (case creating_hook m document w of
        (w1, Inl e) \<Rightarrow> Inl e
      | (w1, Inr u) \<Rightarrow> snd (creating_validate m document w1))"

section \<open>Concrete inputs\<close>

text \<open>
  The environment of a manager that overrides nothing and whose driver and
  releases always succeed: the \<open>k\<close>-th connect hands out the handle \<open>Db k\<close>, a
  release returns a promise that resolves.
\<close>

definition default_env :: env where
  "default_env =
     \<lparr>mongoConnect = (\<lambda>k u os. Inr (Db k)),
      onConnecting = (\<lambda>k d. Inr d),
      onConnected = (\<lambda>k. Inr ()),
      dbClose = (\<lambda>d. Returned (Inr ()))\<rparr>"

text \<open>An empty configuration, to be filled in field by field.\<close>

definition no_config :: configuration where
  "no_config =
     \<lparr>username = None, password = None, host = None, port = None, hosts = None,
      database = None, driver_options = None\<rparr>"

text \<open>The manager \<^verbatim>\<open>new Core(uri, config)\<close> before anything was called on it.\<close>

definition manager :: "string option \<Rightarrow> configuration option \<Rightarrow> core" where
  "manager uri config =
     \<lparr>c_plugins = [], c_url = uri, c_config = config, c_connection = None,
      c_cache = Some NoOpCache, c_connectPromise = None, trace = []\<rparr>"

text \<open>
  A cache director that keys documents and queries by the string under
  \<^verbatim>\<open>_id\<close> and takes for cacheable what has one.
\<close>

definition id_key :: "jvalue \<Rightarrow> string" where
  "id_key v =
     (case v of
        JObj kvs \<Rightarrow> (case map_of kvs ''_id'' of Some (JStr s) \<Rightarrow> s | other \<Rightarrow> [])
      | other \<Rightarrow> [])"

definition id_director :: director where
  "id_director =
     \<lparr>valid = (\<lambda>d. id_key d \<noteq> []), buildKey = id_key,
      validQuery = (\<lambda>q. id_key q \<noteq> []), buildQueryKey = id_key\<rparr>"

text \<open>A validator that wants an object with a \<^verbatim>\<open>name\<close>.\<close>

definition requires_name :: "jvalue \<Rightarrow> validation" where
  "requires_name v =
     (case v of
        JObj kvs \<Rightarrow>
          (if map_of kvs ''name'' = None then \<lparr>failed = True, detail = ''name is required''\<rparr>
           else \<lparr>failed = False, detail = []\<rparr>)
      | other \<Rightarrow> \<lparr>failed = True, detail = ''not an object''\<rparr>)"

text \<open>
  A model without hooks and without a director, a wrapper that keeps what it was
  told, the options of a caller that passes none, and a state with the given
  objects and cache backend.
\<close>

definition bare_model :: "(addr \<times> bool \<times> bool) model" where
  "bare_model =
     \<lparr>creating = None, retrieved = None, ready = None, validate = requires_name,
      cacheDirector = None, isInstance = (\<lambda>r. True)\<rparr>"

definition wrap_flags :: "addr \<Rightarrow> bool \<Rightarrow> bool \<Rightarrow> addr \<times> bool \<times> bool" where
  "wrap_flags a isNew isPartial = (a, isNew, isPartial)"

definition no_options :: query_options where
  "no_options = \<lparr>opt_cache = None, opt_fields = None, opt_partial = None\<rparr>"

definition world_of :: "jvalue list \<Rightarrow> cache \<Rightarrow> world" where
  "world_of objs ch =
     \<lparr>heap = objs, core = (manager (Some ''mongodb://h'') None)\<lparr>c_cache := Some ch\<rparr>,
      plog = []\<rparr>"

section \<open>Invariants of the interleavings\<close>

subsection \<open>Concurrent calls of \<^verbatim>\<open>connect\<close>\<close>





subsection \<open>The branches of a batch\<close>

text \<open>
  What a branch in flight has to do with the batch's initial state \<open>w0\<close>: its
  document is as it was, or as the branch's own hook left it, and what it has
  settled with is what it would have settled with alone.
\<close>

definition branch_ok :: "'r model \<Rightarrow> world \<Rightarrow> world \<Rightarrow> addr \<times> bstage \<Rightarrow> bool" where
  "branch_ok m w0 w x =
     (case snd x of
        BStart \<Rightarrow> deref (heap w) (fst x) = deref (heap w0) (fst x)
      | BHooked r \<Rightarrow>
          r = snd (creating_hook m (fst x) w0) \<and>
          deref (heap w) (fst x) = deref (heap (fst (creating_hook m (fst x) w0))) (fst x)
      | BSettled r \<Rightarrow> r = creating_alone m (fst x) w0)"

definition batch_ok ::
  "'r model \<Rightarrow> world \<Rightarrow> addr list \<Rightarrow> world \<Rightarrow> (addr \<times> bstage) list \<Rightarrow> bool" where
  "batch_ok m w0 documents w bs =
     (map fst bs = documents \<and> length (heap w) = length (heap w0) \<and>
      (\<forall>j<length bs. branch_ok m w0 w (bs ! j)))"

text \<open>How many callbacks a branch has behind it.\<close>

fun brank :: "bstage \<Rightarrow> nat" where
  "brank BStart = 0"
| "brank (BHooked r) = 1"
| "brank (BSettled r) = 2"

section \<open>Properties of the connection lifecycle manager\<close>

subsection \<open>Target resolution\<close>

lemma new_Core_manager:
  "new_Core (Uri uri) config = Inr (manager (Some uri) config)"
  "new_Core (Config cfg) config = Inr (manager None (Some cfg))"
  by (simp_all add: manager_def)

lemma foldl_push_host:
  "foldl (push_host cfg) acc hs =
     acc @ map (\<lambda>h. address h @ spec_port_segment (host_port h) (port cfg)) hs"
  by (induction hs arbitrary: acc)
     (auto simp: push_host_def spec_port_segment_def split: option.splits)

lemma url_of_config:
  assumes "truthy_string (c_url c) = None" and "c_config c = Some cfg"
  shows "url c = Inr (spec_target cfg)"
  using assms
  by (auto simp: url_def spec_target_def spec_credentials_def spec_hosts_def
      spec_host_entries_def spec_database_def spec_port_segment_def foldl_push_host Let_def
      split: option.splits)

lemma url_of_literal:
  assumes "c_url c = Some s" and "s \<noteq> []"
  shows "url c = Inr s"
  using assms by (simp add: url_def)

lemma set_uniq_into: "set (uniq_into r xs) = set r \<union> set xs"
  by (induction xs arbitrary: r) auto

lemma distinct_uniq_into: "distinct r \<Longrightarrow> distinct (uniq_into r xs)"
  by (induction xs arbitrary: r) auto

lemma uniq_into_subseq: "\<exists>ys. uniq_into r xs = r @ ys \<and> subseq ys xs"
proof (induction xs arbitrary: r)
  case Nil
  then show ?case by simp
next
  case (Cons x xs)
  show ?case
  proof (cases "x \<in> set r")
    case True
    with Cons[of r] show ?thesis by auto
  next
    case False
    from Cons[of "r @ [x]"] obtain ys
      where "uniq_into (r @ [x]) xs = (r @ [x]) @ ys" and "subseq ys xs"
      by blast
    with False show ?thesis by auto
  qed
qed

lemma uniq_dedups: "distinct (uniq xs) \<and> set (uniq xs) = set xs \<and> subseq (uniq xs) xs"
  using uniq_into_subseq[of "[]" xs]
  by (auto simp: uniq_def distinct_uniq_into set_uniq_into)

lemma spec_hosts_default:
  assumes "truthy_string (host cfg) = None" and "hosts cfg = None \<or> hosts cfg = Some []"
  shows "spec_hosts cfg = ''localhost''"
  using assms by (auto simp: spec_hosts_def spec_host_entries_def)

text \<open>
  Claim C8, as amended.  A manager that holds a non-empty literal connection
  string resolves to exactly that string, whatever its configuration.  A manager
  without one (none given, or the empty string, which JavaScript takes for
  absent) that holds a configuration resolves to
  \<^verbatim>\<open>mongodb://[user[:password]@]hosts[/database]\<close>: credentials only with a user
  name, the password only with both; the host list joins, with commas, the
  configured host (with the shared port if there is one) followed by the
  additional hosts (own port, else shared port, else none), duplicates dropped
  and order kept; without any host entry the list is \<^verbatim>\<open>localhost\<close> and carries
  no port; the database segment only with a database name.  A name, password or
  host counts when it is a non-empty string, a port when it is not zero.
\<close>

theorem url_resolves_target:
  "(\<forall>s. c_url c = Some s \<and> s \<noteq> [] \<longrightarrow> url c = Inr s) \<and>
   (\<forall>cfg. truthy_string (c_url c) = None \<and> c_config c = Some cfg \<longrightarrow>
      url c = Inr (''mongodb://'' @ spec_credentials cfg @ spec_hosts cfg @ spec_database cfg) \<and>
      (spec_host_entries cfg \<noteq> [] \<longrightarrow>
         spec_hosts cfg = join '','' (uniq (spec_host_entries cfg)) \<and>
         distinct (uniq (spec_host_entries cfg)) \<and>
         set (uniq (spec_host_entries cfg)) = set (spec_host_entries cfg) \<and>
         subseq (uniq (spec_host_entries cfg)) (spec_host_entries cfg)) \<and>
      (truthy_string (host cfg) = None \<and> (hosts cfg = None \<or> hosts cfg = Some []) \<longrightarrow>
         spec_hosts cfg = ''localhost''))"
proof (intro conjI allI impI)
  fix s assume "c_url c = Some s \<and> s \<noteq> []"
  then show "url c = Inr s" by (simp add: url_of_literal)
next
  fix cfg :: configuration assume a: "truthy_string (c_url c) = None \<and> c_config c = Some cfg"
  then have "url c = Inr (spec_target cfg)" by (simp add: url_of_config)
  then show "url c = Inr (''mongodb://'' @ spec_credentials cfg @ spec_hosts cfg @ spec_database cfg)"
    by (simp add: spec_target_def)
next
  fix cfg :: configuration assume "spec_host_entries cfg \<noteq> []"
  then show "spec_hosts cfg = join '','' (uniq (spec_host_entries cfg))"
    by (simp add: spec_hosts_def)
next
  fix cfg :: configuration show "distinct (uniq (spec_host_entries cfg))" by (simp add: uniq_dedups)
next
  fix cfg :: configuration show "set (uniq (spec_host_entries cfg)) = set (spec_host_entries cfg)"
    by (simp add: uniq_dedups)
next
  fix cfg :: configuration show "subseq (uniq (spec_host_entries cfg)) (spec_host_entries cfg)"
    by (simp add: uniq_dedups)
next
  fix cfg :: configuration
  assume "truthy_string (host cfg) = None \<and> (hosts cfg = None \<or> hosts cfg = Some [])"
  then show "spec_hosts cfg = ''localhost''" by (simp add: spec_hosts_default)
qed

theorem url_resolves_target_witness:
  "url (manager (Some ''mongodb://db.example/app'') (Some (no_config\<lparr>host := Some ''other''\<rparr>)))
     = Inr ''mongodb://db.example/app'' \<and>
   url (manager None (Some (no_config\<lparr>port := Some 2,
          hosts := Some [\<lparr>address = ''a'', host_port = Some 1\<rparr>,
                         \<lparr>address = ''b'', host_port = None\<rparr>]\<rparr>)))
     = Inr ''mongodb://a:1,b:2'' \<and>
   url (manager None (Some (no_config\<lparr>username := Some ''u'', password := Some ''p'',
          host := Some ''a'', port := Some 2,
          hosts := Some [\<lparr>address = ''b'', host_port = None\<rparr>,
                         \<lparr>address = ''a'', host_port = Some 2\<rparr>],
          database := Some ''d''\<rparr>)))
     = Inr ''mongodb://u:p@a:2,b:2/d'' \<and>
   url (manager None (Some (no_config\<lparr>port := Some 2\<rparr>))) = Inr ''mongodb://localhost''"
proof -
  let ?c1 = "manager (Some ''mongodb://db.example/app'') (Some (no_config\<lparr>host := Some ''other''\<rparr>))"
  let ?g2 = "no_config\<lparr>port := Some 2,
          hosts := Some [\<lparr>address = ''a'', host_port = Some 1\<rparr>,
                         \<lparr>address = ''b'', host_port = None\<rparr>]\<rparr>"
  let ?g3 = "no_config\<lparr>username := Some ''u'', password := Some ''p'',
          host := Some ''a'', port := Some 2,
          hosts := Some [\<lparr>address = ''b'', host_port = None\<rparr>,
                         \<lparr>address = ''a'', host_port = Some 2\<rparr>],
          database := Some ''d''\<rparr>"
  let ?g4 = "no_config\<lparr>port := Some 2\<rparr>"
  have 1: "url ?c1 = Inr ''mongodb://db.example/app''"
    using url_resolves_target[of ?c1] by (simp add: manager_def)
  have 2: "url (manager None (Some ?g2)) = Inr ''mongodb://a:1,b:2''"
    using url_resolves_target[of "manager None (Some ?g2)"]
    by (simp add: manager_def no_config_def spec_credentials_def spec_hosts_def
        spec_host_entries_def spec_port_segment_def spec_database_def uniq_def show_nat.simps)
  have 3: "url (manager None (Some ?g3)) = Inr ''mongodb://u:p@a:2,b:2/d''"
    using url_resolves_target[of "manager None (Some ?g3)"]
    by (simp add: manager_def no_config_def spec_credentials_def spec_hosts_def
        spec_host_entries_def spec_port_segment_def spec_database_def uniq_def show_nat.simps)
  have 4: "url (manager None (Some ?g4)) = Inr ''mongodb://localhost''"
    using url_resolves_target[of "manager None (Some ?g4)"]
    by (simp add: manager_def no_config_def spec_credentials_def spec_hosts_def
        spec_host_entries_def spec_port_segment_def spec_database_def uniq_def show_nat.simps)
  from 1 2 3 4 show ?thesis by blast
qed

theorem url_empty_literal_counterexample:
  "resolveTarget (Uri []) (Some (no_config\<lparr>host := Some ''h''\<rparr>)) = Inr ''mongodb://h'' \<and>
   resolveTarget (Uri []) (Some (no_config\<lparr>host := Some ''h''\<rparr>)) \<noteq> Inr [] \<and>
   resolveTarget
     (Config (no_config\<lparr>host := Some ''a'', port := Some 2,
        hosts := Some [\<lparr>address = ''b'', host_port = None\<rparr>]\<rparr>)) None
   = Inr ''mongodb://a:2,b:2''"
  by (simp add: resolveTarget_def url_def no_config_def uniq_def push_host_def show_nat.simps)

subsection \<open>Closing\<close>

text \<open>
  Claim C6, as amended.  Without an established connection \<^verbatim>\<open>close\<close> changes
  nothing and resolves with the manager.  With one, it clears the field and then
  releases the handle (the release finds the field already empty).  If the call
  of the release returns, \<^verbatim>\<open>close\<close> resolves with the manager, whatever the
  promise of the release settles with; if the call throws, \<^verbatim>\<open>close\<close> rejects with
  what was thrown, the field being cleared already.  In every case a second
  \<^verbatim>\<open>close\<close> changes nothing and resolves with the manager, and the
  \<^verbatim>\<open>connection\<close> accessor then fails.
\<close>

theorem close_resolves_with_manager:
  "(c_connection c = None \<longrightarrow> close env c = (c, Inr Self)) \<and>
   (\<forall>conn. c_connection c = Some conn \<longrightarrow>
      (\<forall>p. dbClose env conn = Returned p \<longrightarrow>
         close env c =
           (c\<lparr>c_connection := None, trace := trace c @ [DbClose conn None]\<rparr>, Inr Self)) \<and>
      (\<forall>thrown. dbClose env conn = Throws thrown \<longrightarrow>
         close env c =
           (c\<lparr>c_connection := None, trace := trace c @ [DbClose conn None]\<rparr>, Inl thrown))) \<and>
   c_connection (fst (close env c)) = None \<and>
   close env (fst (close env c)) = (fst (close env c), Inr Self) \<and>
   connection (fst (close env c)) = Inl (Error ''Iridium Core not connected to a database.'')"
proof (cases "c_connection c")
  case None
  then show ?thesis by (simp add: close_def connection_def)
next
  case (Some conn)
  then show ?thesis
    by (cases "dbClose env conn") (simp_all add: close_def connection_def Let_def)
qed

theorem close_resolves_with_manager_witness:
  "close (default_env\<lparr>dbClose := (\<lambda>d. Returned (Inl (TransportError ''socket closed'')))\<rparr>)
     ((manager (Some ''mongodb://h'') None)\<lparr>c_connection := Some (Db 7)\<rparr>)
   = ((manager (Some ''mongodb://h'') None)\<lparr>trace := [DbClose (Db 7) None]\<rparr>, Inr Self) \<and>
   close default_env (manager (Some ''mongodb://h'') None)
   = (manager (Some ''mongodb://h'') None, Inr Self)"
  using
    close_resolves_with_manager[of "(manager (Some ''mongodb://h'') None)\<lparr>c_connection := Some (Db 7)\<rparr>"
      "default_env\<lparr>dbClose := (\<lambda>d. Returned (Inl (TransportError ''socket closed'')))\<rparr>"]
    close_resolves_with_manager[of "manager (Some ''mongodb://h'') None" default_env]
  by (simp add: manager_def)

theorem close_release_throws_counterexample:
  "close (default_env\<lparr>dbClose := (\<lambda>d. Throws (TransportError ''socket closed''))\<rparr>)
     ((manager (Some ''mongodb://h'') None)\<lparr>c_connection := Some (Db 7)\<rparr>)
   = ((manager (Some ''mongodb://h'') None)\<lparr>trace := [DbClose (Db 7) None]\<rparr>,
      Inl (TransportError ''socket closed''))"
  by (simp add: close_def manager_def default_env_def)

subsection \<open>Connecting: one call on its own\<close>

lemma url_frame [simp]:
  "url (c\<lparr>c_connection := x\<rparr>) = url c"
  "url (c\<lparr>c_connectPromise := y\<rparr>) = url c"
  "url (c\<lparr>trace := z\<rparr>) = url c"
  by (simp_all add: url_def cong: option.case_cong)
















text \<open>
  Claim C4 at work.  A second \<^verbatim>\<open>connect\<close> on a connected manager issues no
  second underlying connect, but its chain continues from the connection the
  first callback returned: \<^verbatim>\<open>onConnecting\<close> and \<^verbatim>\<open>onConnected\<close> are invoked
  again.  If the hook rejects on that second invocation, the call rejects and the
  established connection is released.
\<close>

theorem connect_when_connected_reruns_hooks:
  "connect default_env (fst (connect default_env (manager (Some ''mongodb://h'') None)))
   = ((manager (Some ''mongodb://h'') None)
        \<lparr>c_connection := Some (Db 0),
         trace := [IssueConnect ''mongodb://h'' [], OnConnecting (Db 0), OnConnected,
                   OnConnecting (Db 0), OnConnected]\<rparr>,
      Inr Self) \<and>
   connect (default_env\<lparr>onConnecting :=
              (\<lambda>k d. if k = 0 then Inr d else Inl (HookError ''already authenticated''))\<rparr>)
     (fst (connect default_env (manager (Some ''mongodb://h'') None)))
   = ((manager (Some ''mongodb://h'') None)
        \<lparr>trace := [IssueConnect ''mongodb://h'' [], OnConnecting (Db 0), OnConnected,
                   OnConnecting (Db 0), DbClose (Db 0) (Some (Db 0))]\<rparr>,
      Inl (HookError ''already authenticated''))"
proof -
  let ?c1 = "(manager (Some ''mongodb://h'') None)
        \<lparr>c_connection := Some (Db 0),
         trace := [IssueConnect ''mongodb://h'' [], OnConnecting (Db 0), OnConnected]\<rparr>"
  have first: "connect default_env (manager (Some ''mongodb://h'') None) = (?c1, Inr Self)"
    by (simp add: connect_def connect_first_def connect_onConnecting_def connect_store_def
        default_env_def manager_def url_def issued_def connect_options_def Let_def)
  have again: "connect default_env ?c1
    = ((manager (Some ''mongodb://h'') None)
        \<lparr>c_connection := Some (Db 0),
         trace := [IssueConnect ''mongodb://h'' [], OnConnecting (Db 0), OnConnected,
                   OnConnecting (Db 0), OnConnected]\<rparr>, Inr Self)"
    by (simp add: connect_def connect_first_def connect_onConnecting_def connect_store_def
        default_env_def manager_def Let_def)
  have rejected: "connect (default_env\<lparr>onConnecting :=
              (\<lambda>k d. if k = 0 then Inr d else Inl (HookError ''already authenticated''))\<rparr>) ?c1
    = ((manager (Some ''mongodb://h'') None)
        \<lparr>trace := [IssueConnect ''mongodb://h'' [], OnConnecting (Db 0), OnConnected,
                   OnConnecting (Db 0), DbClose (Db 0) (Some (Db 0))]\<rparr>,
      Inl (HookError ''already authenticated''))"
    by (simp add: connect_def connect_first_def connect_onConnecting_def connect_failed_def
        default_env_def manager_def Let_def)
  from first again rejected show ?thesis by simp
qed

subsection \<open>Connecting: concurrent calls\<close>
















text \<open>A single task stepped to its end is \<^verbatim>\<open>connect\<close> running alone.\<close>

lemma connect_is_run_alone:
  "run env [0, 0, 0, 0, 0] (calls 1 c) = (fst (connect env c), [Settled (snd (connect env c))])"
  by (auto simp: calls_def connect_def split: prod.splits sum.splits)

section \<open>Properties of the document lifecycle pipeline\<close>

subsection \<open>A document received\<close>

lemma cloneDeep_equal: "cloneDeep v = v"
proof (induction v)
  case (JArr xs)
  then show ?case by (simp add: map_idI)
next
  case (JObj kvs)
  have "map (\<lambda>kv. (fst kv, cloneDeep (snd kv))) kvs = kvs"
  proof (rule map_idI)
    fix kv assume "kv \<in> set kvs"
    with JObj show "(fst kv, cloneDeep (snd kv)) = kv"
      by (cases kv) (auto simp: snds.simps)
  qed
  then show ?case by simp
qed simp_all

lemma deref_update_other: "b \<noteq> a \<Longrightarrow> deref (h[a := v]) b = deref h b"
  by (simp add: deref_def)

lemma deref_update_same: "a < length h \<Longrightarrow> deref (h[a := v]) a = v"
  by (simp add: deref_def)


lemma run_hook_frame:
  assumes "run_hook h ev a w = (w', r)"
  shows "core w' = core w \<and> plog w' = plog w @ [ev] \<and> length (heap w') = length (heap w) \<and>
         (\<forall>b. b \<noteq> a \<longrightarrow> deref (heap w') b = deref (heap w) b)"
  using assms
  by (auto simp: run_hook_def Let_def deref_update_other split: sum.splits)

lemma received_hook_frame:
  assumes "received_hook m target w = (w', r)"
  shows "core w' = core w \<and> length (heap w') = length (heap w) \<and>
         filter is_ModelCacheSet (plog w') = filter is_ModelCacheSet (plog w) \<and>
         filter is_CacheSet (plog w') = filter is_CacheSet (plog w) \<and>
         (\<forall>b. b \<noteq> target \<longrightarrow> deref (heap w') b = deref (heap w) b)"
  using assms
  by (auto simp: received_hook_def split: option.splits dest!: run_hook_frame)

lemma received_wrap_frame:
  assumes "received_wrap m os target wrapper w = (w', r)"
  shows "core w' = core w \<and> length (heap w') = length (heap w) \<and>
         filter is_ModelCacheSet (plog w') = filter is_ModelCacheSet (plog w) \<and>
         filter is_CacheSet (plog w') = filter is_CacheSet (plog w) \<and>
         (\<forall>b. b \<noteq> target \<longrightarrow> deref (heap w') b = deref (heap w) b) \<and>
         (\<forall>x. r = Inr x \<longrightarrow> x = wrapper target False (opt_fields os \<noteq> None))"
  using assms
  by (auto simp: received_wrap_def Let_def split: option.splits if_splits prod.splits sum.splits
      dest!: run_hook_frame)

lemma received_cache_skipped:
  assumes "c_cache (core w) = None \<or> opt_cache os \<noteq> Some True \<or> opt_fields os \<noteq> None"
  shows "received_cache m os target w = (w, Inr ())"
  using assms by (auto simp: received_cache_def)

lemma modelCache_set_frame:
  assumes "modelCache_set m a w = (w', r)"
  shows "heap w' = heap w \<and>
         filter is_ModelCacheSet (plog w') = filter is_ModelCacheSet (plog w)"
  using assms
  by (auto simp: modelCache_set_def Let_def split: option.splits if_splits prod.splits)

lemma received_cache_taken:
  assumes "c_cache (core w) \<noteq> None" and "opt_cache os = Some True" and "opt_fields os = None"
    and "received_cache m os target w = (w', r)"
  shows "heap w' = heap w @ [deref (heap w) target] \<and>
         filter is_ModelCacheSet (plog w') =
           filter is_ModelCacheSet (plog w) @ [ModelCacheSet (length (heap w))]"
  using assms
  by (auto simp: received_cache_def alloc_def cloneDeep_equal Let_def
      split: prod.splits sum.splits dest!: modelCache_set_frame)


lemma defaults_simps [simp]:
  "opt_fields (defaults os) = opt_fields os"
  "(opt_cache (defaults os) = Some True) = (opt_cache os \<noteq> Some False)"
  by (auto simp: defaults_def split: option.splits)

lemma documentReceived_no_write:
  assumes "opt_fields os \<noteq> None"
  shows "filter is_ModelCacheSet (plog (fst (documentReceived m conditions target wrapper os w)))
           = filter is_ModelCacheSet (plog w) \<and>
         filter is_CacheSet (plog (fst (documentReceived m conditions target wrapper os w)))
           = filter is_CacheSet (plog w) \<and>
         core (fst (documentReceived m conditions target wrapper os w)) = core w \<and>
         length (heap (fst (documentReceived m conditions target wrapper os w))) = length (heap w)"
proof -
  obtain w1 r1 where h: "received_hook m target w = (w1, r1)" by (cases "received_hook m target w")
  note f1 = received_hook_frame[OF h]
  have c: "received_cache m (defaults os) target w1 = (w1, Inr ())"
    using assms by (simp add: received_cache_skipped)
  show ?thesis
  proof (cases r1)
    case (Inl e)
    with h f1 show ?thesis by (simp add: documentReceived_def Let_def)
  next
    case (Inr u)
    obtain w3 r3 where wr: "received_wrap m (defaults os) target wrapper w1 = (w3, r3)"
      by (cases "received_wrap m (defaults os) target wrapper w1")
    from h Inr c wr have "documentReceived m conditions target wrapper os w = (w3, r3)"
      by (simp add: documentReceived_def Let_def)
    with f1 received_wrap_frame[OF wr] show ?thesis by simp
  qed
qed

lemma documentReceived_wrapped:
  assumes "snd (documentReceived m conditions target wrapper os w) = Inr x"
  shows "x = wrapper target False (opt_fields os \<noteq> None)"
proof -
  obtain w1 r1 where h: "received_hook m target w = (w1, r1)" by (cases "received_hook m target w")
  obtain w2 r2 where c: "received_cache m (defaults os) target w1 = (w2, r2)"
    by (cases "received_cache m (defaults os) target w1")
  obtain w3 r3 where wr: "received_wrap m (defaults os) target wrapper w2 = (w3, r3)"
    by (cases "received_wrap m (defaults os) target wrapper w2")
  from assms h c wr have "r3 = Inr x"
    by (auto simp: documentReceived_def Let_def split: sum.splits)
  with received_wrap_frame[OF wr] show ?thesis by simp
qed





text \<open>
  Claim C10.  The \<^verbatim>\<open>partial\<close> option has no effect on a run of the
  document-received pipeline: the run is the same whatever value it has.  What
  the wrapper is told, and whether the document goes to the cache, follows the
  \<^verbatim>\<open>fields\<close> option alone: without \<^verbatim>\<open>fields\<close> the pipeline wraps with the partial
  flag false and (with a cache on the manager, caching not switched off, and the
  \<^verbatim>\<open>retrieved\<close> hook completed) hands a copy of the document to the model cache;
  with \<^verbatim>\<open>fields\<close> it wraps with the partial flag true and writes nothing to the
  cache.
\<close>

theorem documentReceived_partial_by_fields:
  "documentReceived m conditions target wrapper (os\<lparr>opt_partial := p\<rparr>) w
     = documentReceived m conditions target wrapper os w \<and>
   (opt_fields os = None \<longrightarrow>
      (\<forall>x. snd (documentReceived m conditions target wrapper os w) = Inr x \<longrightarrow>
         x = wrapper target False False) \<and>
      (\<forall>w1. received_hook m target w = (w1, Inr ()) \<and> c_cache (core w) \<noteq> None \<and>
            opt_cache os \<noteq> Some False \<longrightarrow>
         filter is_ModelCacheSet (plog (fst (documentReceived m conditions target wrapper os w)))
           = filter is_ModelCacheSet (plog w) @ [ModelCacheSet (length (heap w))])) \<and>
   (opt_fields os \<noteq> None \<longrightarrow>
      (\<forall>x. snd (documentReceived m conditions target wrapper os w) = Inr x \<longrightarrow>
         x = wrapper target False True) \<and>
      filter is_ModelCacheSet (plog (fst (documentReceived m conditions target wrapper os w)))
        = filter is_ModelCacheSet (plog w) \<and>
      filter is_CacheSet (plog (fst (documentReceived m conditions target wrapper os w)))
        = filter is_CacheSet (plog w) \<and>
      core (fst (documentReceived m conditions target wrapper os w)) = core w)"
proof (intro conjI allI impI)
  have "defaults (os\<lparr>opt_partial := p\<rparr>) = (defaults os)\<lparr>opt_partial := Some (case p of None \<Rightarrow> False | Some b \<Rightarrow> b)\<rparr>"
    by (simp add: defaults_def)
  moreover have "received_cache m (os'\<lparr>opt_partial := q\<rparr>) target w1 = received_cache m os' target w1"
    for os' q w1 by (simp add: received_cache_def)
  moreover have "received_wrap m (os'\<lparr>opt_partial := q\<rparr>) target wrapper w1
      = received_wrap m os' target wrapper w1" for os' q w1
    by (simp add: received_wrap_def)
  ultimately show "documentReceived m conditions target wrapper (os\<lparr>opt_partial := p\<rparr>) w
     = documentReceived m conditions target wrapper os w"
    by (simp add: documentReceived_def Let_def)
next
  fix x
  assume "opt_fields os = None"
    and "snd (documentReceived m conditions target wrapper os w) = Inr x"
  then show "x = wrapper target False False"
    using documentReceived_wrapped[of m conditions target wrapper os w x] by simp
next
  fix x
  assume "opt_fields os \<noteq> None"
    and "snd (documentReceived m conditions target wrapper os w) = Inr x"
  then show "x = wrapper target False True"
    using documentReceived_wrapped[of m conditions target wrapper os w x] by simp
next
  fix w1
  assume f: "opt_fields os = None"
    and a: "received_hook m target w = (w1, Inr ()) \<and> c_cache (core w) \<noteq> None \<and>
            opt_cache os \<noteq> Some False"
  note f1 = received_hook_frame[of m target w w1 "Inr ()"]
  obtain w2 r2 where c: "received_cache m (defaults os) target w1 = (w2, r2)"
    by (cases "received_cache m (defaults os) target w1")
  from a f f1 have g: "c_cache (core w1) \<noteq> None" "opt_cache (defaults os) = Some True"
    "opt_fields (defaults os) = None" by simp_all
  note f2 = received_cache_taken[OF g c]
  show "filter is_ModelCacheSet (plog (fst (documentReceived m conditions target wrapper os w)))
           = filter is_ModelCacheSet (plog w) @ [ModelCacheSet (length (heap w))]"
  proof (cases r2)
    case (Inl e)
    with a c have "fst (documentReceived m conditions target wrapper os w) = w2"
      by (simp add: documentReceived_def Let_def)
    with a f1 f2 show ?thesis by simp
  next
    case (Inr u)
    obtain w3 r3 where wr: "received_wrap m (defaults os) target wrapper w2 = (w3, r3)"
      by (cases "received_wrap m (defaults os) target wrapper w2")
    with a c Inr have "fst (documentReceived m conditions target wrapper os w) = w3"
      by (simp add: documentReceived_def Let_def)
    with a f1 f2 received_wrap_frame[OF wr] show ?thesis by simp
  qed
next
  assume f: "opt_fields os \<noteq> None"
  from documentReceived_no_write[OF f, of m conditions target wrapper w]
  show "filter is_ModelCacheSet (plog (fst (documentReceived m conditions target wrapper os w)))
        = filter is_ModelCacheSet (plog w)"
    and "filter is_CacheSet (plog (fst (documentReceived m conditions target wrapper os w)))
        = filter is_CacheSet (plog w)"
    and "core (fst (documentReceived m conditions target wrapper os w)) = core w"
    by simp_all
qed

theorem documentReceived_partial_by_fields_witness:
  "documentReceived (bare_model\<lparr>cacheDirector := Some id_director\<rparr>) JNull 0 wrap_flags
     (no_options\<lparr>opt_partial := Some True\<rparr>)
     (world_of [JObj [(''_id'', JStr ''7'')]] NoOpCache)
   = (\<lparr>heap = [JObj [(''_id'', JStr ''7'')], JObj [(''_id'', JStr ''7'')]],
       core = (manager (Some ''mongodb://h'') None)\<lparr>c_cache := Some NoOpCache\<rparr>,
       plog = [ModelCacheSet 1, CacheSet ''7'' 1, Wrapped 0 False False]\<rparr>,
      Inr (0, False, False)) \<and>
   documentReceived (bare_model\<lparr>cacheDirector := Some id_director\<rparr>) JNull 0 wrap_flags
     (no_options\<lparr>opt_fields := Some [(''name'', 1)], opt_partial := Some False\<rparr>)
     (world_of [JObj [(''_id'', JStr ''7'')]] NoOpCache)
   = (\<lparr>heap = [JObj [(''_id'', JStr ''7'')]],
       core = (manager (Some ''mongodb://h'') None)\<lparr>c_cache := Some NoOpCache\<rparr>,
       plog = [Wrapped 0 False True]\<rparr>,
      Inr (0, False, True))"
proof -
  let ?m = "bare_model\<lparr>cacheDirector := Some id_director\<rparr>"
  let ?w = "world_of [JObj [(''_id'', JStr ''7'')]] NoOpCache"
  let ?f = "no_options\<lparr>opt_fields := Some [(''name'', 1)]\<rparr>"
  have 1: "documentReceived ?m JNull 0 wrap_flags no_options ?w
   = (\<lparr>heap = [JObj [(''_id'', JStr ''7'')], JObj [(''_id'', JStr ''7'')]],
       core = (manager (Some ''mongodb://h'') None)\<lparr>c_cache := Some NoOpCache\<rparr>,
       plog = [ModelCacheSet 1, CacheSet ''7'' 1, Wrapped 0 False False]\<rparr>,
      Inr (0, False, False))"
    by (simp add: documentReceived_def received_hook_def received_cache_def received_wrap_def
        modelCache_set_def defaults_def alloc_def deref_def bare_model_def
        id_director_def id_key_def wrap_flags_def no_options_def world_of_def manager_def Let_def)
  have 2: "documentReceived ?m JNull 0 wrap_flags ?f ?w
   = (\<lparr>heap = [JObj [(''_id'', JStr ''7'')]],
       core = (manager (Some ''mongodb://h'') None)\<lparr>c_cache := Some NoOpCache\<rparr>,
       plog = [Wrapped 0 False True]\<rparr>,
      Inr (0, False, True))"
    by (simp add: documentReceived_def received_hook_def received_cache_def received_wrap_def
        defaults_def bare_model_def
        wrap_flags_def no_options_def world_of_def manager_def Let_def)
  have p1: "documentReceived ?m JNull 0 wrap_flags (no_options\<lparr>opt_partial := Some True\<rparr>) ?w
    = documentReceived ?m JNull 0 wrap_flags no_options ?w"
    using documentReceived_partial_by_fields[where m = ?m and conditions = JNull
        and target = 0 and wrapper = wrap_flags and os = no_options and p = "Some True" and w = ?w]
    by blast
  have p2: "documentReceived ?m JNull 0 wrap_flags (?f\<lparr>opt_partial := Some False\<rparr>) ?w
    = documentReceived ?m JNull 0 wrap_flags ?f ?w"
    using documentReceived_partial_by_fields[where m = ?m and conditions = JNull
        and target = 0 and wrapper = wrap_flags and os = ?f and p = "Some False" and w = ?w]
    by blast
  from 1 2 p1 p2 show ?thesis by simp
qed

subsection \<open>The model cache\<close>

text \<open>
  Claim C9, as amended.  For a model with a director, over the in-process map
  cache: if the director marks the document and the conditions cacheable and
  derives the same key from both, then \<^verbatim>\<open>set\<close> resolves with the document and a
  following \<^verbatim>\<open>get\<close> resolves with that same document object, whose value is
  what it was.  For a model without a director \<^verbatim>\<open>set\<close> changes nothing and
  resolves with the document it was given, and \<^verbatim>\<open>get\<close> resolves with nothing,
  whatever the cache holds.
\<close>

theorem modelCache_round_trip:
  "(\<forall>dir mem. cacheDirector m = Some dir \<and> c_cache (core w) = Some (MemoryCache mem) \<and>
       valid dir (deref (heap w) doc) \<and> validQuery dir conditions \<and>
       buildKey dir (deref (heap w) doc) = buildQueryKey dir conditions \<longrightarrow>
       snd (modelCache_set m doc w) = Inr doc \<and>
       modelCache_get m conditions (fst (modelCache_set m doc w)) = Inr (Some doc) \<and>
       deref (heap (fst (modelCache_set m doc w))) doc = deref (heap w) doc) \<and>
   (cacheDirector m = None \<longrightarrow>
       modelCache_set m doc w = (w, Inr doc) \<and> modelCache_get m conditions w = Inr None)"
  by (auto simp: modelCache_set_def modelCache_get_def Let_def)

theorem modelCache_round_trip_witness:
  "modelCache_get (bare_model\<lparr>cacheDirector := Some id_director\<rparr>) (JObj [(''_id'', JStr ''7'')])
     (fst (modelCache_set (bare_model\<lparr>cacheDirector := Some id_director\<rparr>) 0
        (world_of [JObj [(''_id'', JStr ''7''), (''name'', JStr ''Ann'')]] (MemoryCache Map.empty))))
   = Inr (Some 0) \<and>
   modelCache_get bare_model (JObj [(''_id'', JStr ''7'')])
     (world_of [JObj [(''_id'', JStr ''7'')]] (MemoryCache [''7'' \<mapsto> 0]))
   = Inr None"
proof -
  let ?m = "bare_model\<lparr>cacheDirector := Some id_director\<rparr>"
  let ?w = "world_of [JObj [(''_id'', JStr ''7''), (''name'', JStr ''Ann'')]] (MemoryCache Map.empty)"
  have 1: "modelCache_get ?m (JObj [(''_id'', JStr ''7'')]) (fst (modelCache_set ?m 0 ?w))
    = Inr (Some 0)"
    using modelCache_round_trip[of ?m ?w 0 "JObj [(''_id'', JStr ''7'')]"]
    by (simp add: bare_model_def id_director_def id_key_def world_of_def deref_def)
  have 2: "modelCache_get bare_model (JObj [(''_id'', JStr ''7'')])
     (world_of [JObj [(''_id'', JStr ''7'')]] (MemoryCache [''7'' \<mapsto> 0])) = Inr None"
    using modelCache_round_trip[of bare_model
        "world_of [JObj [(''_id'', JStr ''7'')]] (MemoryCache [''7'' \<mapsto> 0])" 0
        "JObj [(''_id'', JStr ''7'')]"]
    by (simp add: bare_model_def)
  from 1 2 show ?thesis by simp
qed

theorem modelCache_uncacheable_counterexample:
  "buildKey (id_director\<lparr>valid := (\<lambda>d. False)\<rparr>) (JObj [(''_id'', JStr ''7'')])
     = buildQueryKey (id_director\<lparr>valid := (\<lambda>d. False)\<rparr>) (JObj [(''_id'', JStr ''7'')]) \<and>
   modelCache_get (bare_model\<lparr>cacheDirector := Some (id_director\<lparr>valid := (\<lambda>d. False)\<rparr>)\<rparr>)
     (JObj [(''_id'', JStr ''7'')])
     (fst (modelCache_set
        (bare_model\<lparr>cacheDirector := Some (id_director\<lparr>valid := (\<lambda>d. False)\<rparr>)\<rparr>) 0
        (world_of [JObj [(''_id'', JStr ''7'')]] (MemoryCache Map.empty))))
   = Inr None \<and>
   modelCache_get (bare_model\<lparr>cacheDirector := Some (id_director\<lparr>validQuery := (\<lambda>q. False)\<rparr>)\<rparr>)
     (JObj [(''_id'', JStr ''7'')])
     (fst (modelCache_set
        (bare_model\<lparr>cacheDirector := Some (id_director\<lparr>validQuery := (\<lambda>q. False)\<rparr>)\<rparr>) 0
        (world_of [JObj [(''_id'', JStr ''7'')]] (MemoryCache Map.empty))))
   = Inr None"
  by (simp add: modelCache_get_def modelCache_set_def bare_model_def id_director_def id_key_def
      world_of_def deref_def Let_def)

subsection \<open>Creating documents\<close>

lemma creating_hook_frame:
  assumes "creating_hook m d w = (w', r)"
  shows "core w' = core w \<and> length (heap w') = length (heap w) \<and>
         (\<forall>a. a \<noteq> d \<longrightarrow> deref (heap w') a = deref (heap w) a)"
  using assms
  by (auto simp: creating_hook_def split: option.splits dest!: run_hook_frame)

lemma creating_validate_frame:
  assumes "creating_validate m d w = (w', r)"
  shows "core w' = core w \<and> heap w' = heap w"
  using assms by (auto simp: creating_validate_def Let_def split: if_splits)

lemma bstep_frame:
  assumes "bstep m d w b = (w', b')"
  shows "core w' = core w \<and> length (heap w') = length (heap w) \<and>
         (\<forall>a. a \<noteq> d \<longrightarrow> deref (heap w') a = deref (heap w) a) \<and>
         brank b' = min 2 (brank b + 1)"
  using assms
  by (cases "(m, d, w, b)" rule: bstep.cases)
     (auto split: prod.splits dest!: creating_hook_frame creating_validate_frame)

lemma creating_hook_cell:
  assumes "deref (heap w) d = deref (heap w0) d" and "d < length (heap w)" and "d < length (heap w0)"
  shows "snd (creating_hook m d w) = snd (creating_hook m d w0) \<and>
         deref (heap (fst (creating_hook m d w))) d = deref (heap (fst (creating_hook m d w0))) d"
  using assms
  by (auto simp: creating_hook_def run_hook_def Let_def deref_update_same
      split: option.splits sum.splits)

lemma creating_validate_cell:
  assumes "deref (heap w) d = deref (heap w1) d"
  shows "snd (creating_validate m d w) = snd (creating_validate m d w1)"
  using assms by (simp add: creating_validate_def Let_def)

lemma branch_ok_frame:
  assumes "branch_ok m w0 w x" and "deref (heap w') (fst x) = deref (heap w) (fst x)"
  shows "branch_ok m w0 w' x"
  using assms by (auto simp: branch_ok_def split: bstage.splits)

lemma bstep_branch_ok:
  assumes ok: "branch_ok m w0 w (d, b)" and v: "d < length (heap w)" "d < length (heap w0)"
    and st: "bstep m d w b = (w', b')"
  shows "branch_ok m w0 w' (d, b')"
proof (cases "(m, d, w, b)" rule: bstep.cases)
  case (1 m0 d0 w00)
  then have b: "b = BStart" by simp
  with ok have "deref (heap w) d = deref (heap w0) d" by (simp add: branch_ok_def)
  from creating_hook_cell[OF this v, of m] st b show ?thesis
    by (auto simp: branch_ok_def split: prod.splits)
next
  case (2 m0 d0 w00 e)
  then have b: "b = BHooked (Inl e)" by simp
  with ok have r: "snd (creating_hook m d w0) = Inl e" by (simp add: branch_ok_def)
  from st b have "b' = BSettled (Inl e)" by simp
  with r show ?thesis by (auto simp: branch_ok_def creating_alone_def split: prod.splits)
next
  case (3 m0 d0 w00 u)
  then have b: "b = BHooked (Inr u)" by simp
  with ok have r: "snd (creating_hook m d w0) = Inr u"
    and c: "deref (heap w) d = deref (heap (fst (creating_hook m d w0))) d"
    by (simp_all add: branch_ok_def)
  from st b have "b' = BSettled (snd (creating_validate m d w))"
    by (auto split: prod.splits)
  with creating_validate_cell[OF c, of m] r show ?thesis
    by (auto simp: branch_ok_def creating_alone_def split: prod.splits sum.splits)
next
  case (4 m0 d0 w00 r)
  then have b: "b = BSettled r" by simp
  with st have "b' = BSettled r" by simp
  with ok b show ?thesis by (simp add: branch_ok_def)
qed

lemma bstep_batch_ok:
  assumes inv: "batch_ok m w0 documents w bs"
    and dist: "distinct documents" and val: "\<forall>d\<in>set documents. d < length (heap w0)"
    and i: "i < length bs"
    and st: "bstep m (fst (bs ! i)) w (snd (bs ! i)) = (w', b')"
  shows "batch_ok m w0 documents w' (bs[i := (fst (bs ! i), b')])"
proof -
  from inv have docs: "map fst bs = documents" and len: "length (heap w) = length (heap w0)"
    and ok: "\<forall>j<length bs. branch_ok m w0 w (bs ! j)"
    by (simp_all add: batch_ok_def)
  note fr = bstep_frame[OF st]
  have m1: "map fst (bs[i := (fst (bs ! i), b')]) = documents"
  proof -
    have "map fst (bs[i := (fst (bs ! i), b')]) = (map fst bs)[i := map fst bs ! i]"
      using i by (simp add: map_update)
    then show ?thesis using docs by (simp only: list_update_id)
  qed
  have di: "fst (bs ! i) < length (heap w0)"
    using val docs i by (metis length_map nth_map nth_mem)
  have "branch_ok m w0 w' ((bs[i := (fst (bs ! i), b')]) ! j)" if j: "j < length bs" for j
  proof (cases "j = i")
    case True
    from ok i have "branch_ok m w0 w (fst (bs ! i), snd (bs ! i))" by simp
    from bstep_branch_ok[OF this _ di st] di len True i show ?thesis by simp
  next
    case False
    have "documents ! j \<noteq> documents ! i"
      using dist False j i docs by (metis length_map nth_eq_iff_index_eq)
    then have "fst (bs ! j) \<noteq> fst (bs ! i)" using docs j i by (metis nth_map)
    with fr have c: "deref (heap w') (fst (bs ! j)) = deref (heap w) (fst (bs ! j))" by simp
    from ok j have "branch_ok m w0 w (bs ! j)" by simp
    then have "branch_ok m w0 w' (bs ! j)" using c by (rule branch_ok_frame)
    with False show ?thesis by simp
  qed
  with m1 fr len show ?thesis by (simp add: batch_ok_def)
qed

lemma brun_batch_ok:
  assumes dist: "distinct documents" and val: "\<forall>d\<in>set documents. d < length (heap w0)"
    and inv: "batch_ok m w0 documents w bs"
    and run: "brun m sch (w, bs) = (w', bs')"
  shows "batch_ok m w0 documents w' bs' \<and>
         (\<forall>j<length bs. brank (snd (bs' ! j)) = min 2 (brank (snd (bs ! j)) + count_list sch j))"
  using inv run
proof (induction sch arbitrary: w bs)
  case Nil
  have "brank b \<le> 2" for b by (cases b) auto
  with Nil show ?case by (auto simp: min_absorb2)
next
  case (Cons i sch)
  show ?case
  proof (cases "i < length bs")
    case True
    obtain w1 b1 where s: "bstep m (fst (bs ! i)) w (snd (bs ! i)) = (w1, b1)"
      by (cases "bstep m (fst (bs ! i)) w (snd (bs ! i))")
    let ?bs1 = "bs[i := (fst (bs ! i), b1)]"
    from s True Cons.prems(2) have r: "brun m sch (w1, ?bs1) = (w', bs')" by simp
    have inv1: "batch_ok m w0 documents w1 ?bs1"
      by (rule bstep_batch_ok[OF Cons.prems(1) dist val True s])
    from bstep_frame[OF s] have k: "brank b1 = min 2 (brank (snd (bs ! i)) + 1)" by simp
    from Cons.IH[OF inv1 r] have inv': "batch_ok m w0 documents w' bs'"
      and ih: "\<forall>j<length bs. brank (snd (bs' ! j)) = min 2 (brank (snd (?bs1 ! j)) + count_list sch j)"
      by simp_all
    have "brank (snd (bs' ! j)) = min 2 (brank (snd (bs ! j)) + count_list (i # sch) j)"
      if j: "j < length bs" for j
    proof (cases "i = j")
      case True
      with ih j k show ?thesis by auto
    next
      case False
      with ih j show ?thesis by auto
    qed
    with inv' show ?thesis by blast
  next
    case False
    with Cons.prems(2) have r: "brun m sch (w, bs) = (w', bs')" by simp
    from Cons.IH[OF Cons.prems(1) r] False show ?thesis by auto
  qed
qed

lemma brank_2: "brank b = 2 \<Longrightarrow> \<exists>r. b = BSettled r"
  by (cases b) auto

lemma creating_alone_validates:
  assumes "creating_hook m d w = (w1, Inr ())"
  shows "creating_alone m d w =
     (if failed (validate m (deref (heap w1) d))
      then Inl (ValidationFailed (detail (validate m (deref (heap w1) d))))
      else Inr d)"
  using assms by (simp add: creating_alone_def creating_validate_def Let_def)

text \<open>
  Claim C2.  The documents of a batch are distinct objects of the store and the
  callbacks of their branches run in any interleaving.  Then every branch settles
  once its two callbacks have run, whatever happened to the other branches, and
  it settles with exactly what it would settle with if its document were the
  only one: where its hook step completes, with the validator's failure (carrying
  the validator's detail) if validation of the document fails, and else with the
  document.
\<close>

theorem creating_branches_independent:
  assumes "distinct documents" and "\<forall>d\<in>set documents. d < length (heap w)"
    and "brun m sch (w, branches documents) = (w', bs)"
    and "i < length documents"
  shows "fst (bs ! i) = documents ! i \<and>
     (\<forall>r. snd (bs ! i) = BSettled r \<longrightarrow> r = creating_alone m (documents ! i) w) \<and>
     (2 \<le> count_list sch i \<longrightarrow> snd (bs ! i) = BSettled (creating_alone m (documents ! i) w)) \<and>
     (\<forall>w1. creating_hook m (documents ! i) w = (w1, Inr ()) \<longrightarrow>
        creating_alone m (documents ! i) w =
          (if failed (validate m (deref (heap w1) (documents ! i)))
           then Inl (ValidationFailed (detail (validate m (deref (heap w1) (documents ! i)))))
           else Inr (documents ! i)))"
proof -
  have init: "batch_ok m w documents w (branches documents)"
    by (simp add: batch_ok_def branches_def branch_ok_def comp_def)
  from brun_batch_ok[OF assms(1,2) init assms(3)]
  have inv: "batch_ok m w documents w' bs"
    and rk: "\<forall>j<length documents. brank (snd (bs ! j)) = min 2 (count_list sch j)"
    by (simp_all add: branches_def)
  from inv have docs: "map fst bs = documents" by (simp add: batch_ok_def)
  then have len: "length bs = length documents" by (metis length_map)
  from docs assms(4) len have d: "fst (bs ! i) = documents ! i" by (metis nth_map)
  from inv assms(4) len have "branch_ok m w w' (bs ! i)" by (simp add: batch_ok_def)
  with d have settled: "\<forall>r. snd (bs ! i) = BSettled r \<longrightarrow> r = creating_alone m (documents ! i) w"
    by (auto simp: branch_ok_def)
  have fin: "snd (bs ! i) = BSettled (creating_alone m (documents ! i) w)"
    if "2 \<le> count_list sch i"
  proof -
    from rk assms(4) that have "brank (snd (bs ! i)) = 2" by simp
    then obtain r where "snd (bs ! i) = BSettled r" using brank_2 by blast
    with settled show ?thesis by simp
  qed
  from d settled fin creating_alone_validates[of m "documents ! i" w] show ?thesis by blast
qed

theorem creating_branches_independent_witness:
  "creatingDocuments bare_model [0, 1, 2]
     (world_of [JObj [(''name'', JStr ''Ann'')], JObj [(''age'', JNum 3)],
                JObj [(''name'', JStr ''Bob'')]] NoOpCache)
   = ((world_of [JObj [(''name'', JStr ''Ann'')], JObj [(''age'', JNum 3)],
                JObj [(''name'', JStr ''Bob'')]] NoOpCache)
        \<lparr>plog := [Validated 0, Validated 1, Validated 2]\<rparr>,
      [Some (Inr 0), Some (Inl (ValidationFailed ''name is required'')), Some (Inr 2)],
      Some (Inl (ValidationFailed ''name is required''))) \<and>
   creating_alone bare_model 1
     (world_of [JObj [(''name'', JStr ''Ann'')], JObj [(''age'', JNum 3)],
                JObj [(''name'', JStr ''Bob'')]] NoOpCache)
   = Inl (ValidationFailed ''name is required'')"
proof -
  let ?w = "world_of [JObj [(''name'', JStr ''Ann'')], JObj [(''age'', JNum 3)],
                JObj [(''name'', JStr ''Bob'')]] NoOpCache"
  let ?bs = "[(0, BSettled (Inr 0)), (1, BSettled (Inl (ValidationFailed ''name is required''))),
              (2, BSettled (Inr 2))]"
  have u: "[0..<3] = [0, 1, 2]" by (simp add: upt_rec)
  have r: "brun bare_model ([0, 1, 2] @ [0, 1, 2]) (?w, branches [0, 1, 2])
    = (?w\<lparr>plog := [Validated 0, Validated 1, Validated 2]\<rparr>, ?bs)"
    by (simp add: branches_def creating_hook_def creating_validate_def bare_model_def
        requires_name_def world_of_def deref_def Let_def)
  have c: "creatingDocuments bare_model [0, 1, 2] ?w
    = (?w\<lparr>plog := [Validated 0, Validated 1, Validated 2]\<rparr>,
       [Some (Inr 0), Some (Inl (ValidationFailed ''name is required'')), Some (Inr 2)],
       Some (Inl (ValidationFailed ''name is required'')))"
  proof -
    have "length [0, 1, 2 :: nat] = 3" by simp
    then have "[0..<length [0, 1, 2 :: nat]] = [0, 1, 2]" using u by (simp only:)
    then show ?thesis unfolding creatingDocuments_def Let_def by (simp only: r) simp
  qed
  have "\<forall>r. snd (?bs ! 1) = BSettled r \<longrightarrow> r = creating_alone bare_model ([0, 1, 2] ! 1) ?w"
    using creating_branches_independent[OF _ _ r, of 1] by (simp add: world_of_def)
  then have "creating_alone bare_model 1 ?w = Inl (ValidationFailed ''name is required'')"
    by simp
  with c show ?thesis by simp
qed

text \<open>
  Claim C3 at work.  The first callback of a branch tests \<^verbatim>\<open>hooks.retrieved\<close> and
  calls \<^verbatim>\<open>hooks.creating\<close>.  A model with a \<^verbatim>\<open>creating\<close> hook and no
  \<^verbatim>\<open>retrieved\<close> hook never has its \<^verbatim>\<open>creating\<close> hook invoked: the document
  below, which the hook would have given a name, is validated as it came and
  fails.  A model with a \<^verbatim>\<open>retrieved\<close> hook and no \<^verbatim>\<open>creating\<close> hook has every
  branch rejected with a \<^verbatim>\<open>TypeError\<close> before validation.
\<close>

theorem creatingDocuments_tests_retrieved_hook:
  "creatingDocuments
     (bare_model\<lparr>creating := Some (\<lambda>d. Inr (JObj [(''name'', JStr ''from the hook'')]))\<rparr>)
     [0] (world_of [JObj []] NoOpCache)
   = ((world_of [JObj []] NoOpCache)\<lparr>plog := [Validated 0]\<rparr>,
      [Some (Inl (ValidationFailed ''name is required''))],
      Some (Inl (ValidationFailed ''name is required''))) \<and>
   creatingDocuments (bare_model\<lparr>retrieved := Some (\<lambda>d. Inr d)\<rparr>)
     [0] (world_of [JObj [(''name'', JStr ''Ann'')]] NoOpCache)
   = (world_of [JObj [(''name'', JStr ''Ann'')]] NoOpCache,
      [Some (Inl (TypeError ''this.model.options.hooks.creating is not a function''))],
      Some (Inl (TypeError ''this.model.options.hooks.creating is not a function''))) \<and>
   creatingDocuments
     (bare_model\<lparr>creating := Some (\<lambda>d. Inr (JObj [(''name'', JStr ''from the hook'')])),
        retrieved := Some (\<lambda>d. Inr d)\<rparr>)
     [0] (world_of [JObj []] NoOpCache)
   = ((world_of [JObj [(''name'', JStr ''from the hook'')]] NoOpCache)
        \<lparr>plog := [HookCreating 0, Validated 0]\<rparr>,
      [Some (Inr 0)], Some (Inr [0]))"
  by (simp add: creatingDocuments_def branches_def creating_hook_def creating_validate_def
      run_hook_def bare_model_def requires_name_def world_of_def deref_def Let_def)

end
